theory Spec2Isabelle
  imports Main
begin

section \<open>Python values\<close>

text \<open>
  The values that travel through the adapter framework are JSON-like Python values.
  A \<open>dict\<close> is an association list in insertion order with unique keys; every
  dictionary of the modelled code is keyed by strings. \<open>PObj\<close> stands for any
  other object (a tuple, a float, a coroutine object, ...), named by a tag and carrying
  its truth value: an empty tuple and the float zero are false.
\<close>

datatype pyval =
    PNone
  | PBool bool
  | PInt int
  | PStr string
  | PList "pyval list"
  | PDict "(string \<times> pyval) list"
  | PObj string bool

type_synonym pydict = "(string \<times> pyval) list"

text \<open>\<open>d.get(k)\<close>: the first (and only) binding of the key, if any.\<close>

fun dict_get :: "(string \<times> 'v) list \<Rightarrow> string \<Rightarrow> 'v option" where
  "dict_get [] k = None"
| "dict_get ((k', v) # d) k = (if k' = k then Some v else dict_get d k)"

text \<open>\<open>d[k] = v\<close>: replaces the value in place, or appends a new binding.\<close>

fun dict_set :: "(string \<times> 'v) list \<Rightarrow> string \<Rightarrow> 'v \<Rightarrow> (string \<times> 'v) list" where
  "dict_set [] k v = [(k, v)]"
| "dict_set ((k', v') # d) k v =
     (if k' = k then (k, v) # d else (k', v') # dict_set d k v)"

text \<open>\<open>{**base, **extra}\<close>: the bindings of \<open>extra\<close> are stored one after the other.\<close>

fun dict_merge :: "pydict \<Rightarrow> pydict \<Rightarrow> pydict" where
  "dict_merge base [] = base"
| "dict_merge base ((k, v) # extra) = dict_merge (dict_set base k v) extra"

text \<open>\<open>d.pop(k, default)\<close> and \<open>del d[k]\<close> both remove the binding of the key.\<close>

fun dict_remove :: "(string \<times> 'v) list \<Rightarrow> string \<Rightarrow> (string \<times> 'v) list" where
  "dict_remove [] k = []"
| "dict_remove ((k', v) # d) k = (if k' = k then d else (k', v) # dict_remove d k)"

text \<open>Python's truth value of an object, as tested by \<open>if x:\<close>.\<close>

fun truthy :: "pyval \<Rightarrow> bool" where
  "truthy PNone = False"
| "truthy (PBool b) = b"
| "truthy (PInt i) = (i \<noteq> 0)"
| "truthy (PStr s) = (s \<noteq> [])"
| "truthy (PList xs) = (xs \<noteq> [])"
| "truthy (PDict d) = (d \<noteq> [])"
| "truthy (PObj t b) = b"

section \<open>AdapterResult (adapter/result.py)\<close>

text \<open>
  The dataclass \<open>AdapterResult\<close>. The field \<open>error\<close> is declared
  \<open>Optional[str]\<close>, with \<open>None\<close> for no error; nothing converts what is stored
  there, and \<open>BaseAdapter.execute\<close> stores a value taken from a handler's dictionary,
  so the field holds a Python value.
\<close>

record AdapterResult =
  success :: bool
  data :: pydict
  error :: pyval

text \<open>\<open>AdapterResult.ok(**data)\<close> and \<open>AdapterResult.fail(error, **data)\<close>.\<close>

definition ok :: "pydict \<Rightarrow> AdapterResult" where
  "ok kw = \<lparr>success = True, data = kw, error = PNone\<rparr>"

definition fail :: "pyval \<Rightarrow> pydict \<Rightarrow> AdapterResult" where
  "fail e kw = \<lparr>success = False, data = kw, error = e\<rparr>"

text \<open>
  \<open>to_wire\<close>: the dictionary with \<open>success\<close> and \<open>data\<close>, and \<open>error\<close>
  stored only under the guard \<open>if self.error:\<close>.
\<close>

definition to_wire :: "AdapterResult \<Rightarrow> pydict" where
  "to_wire r =
     (let d = [(''success'', PBool (success r)), (''data'', PDict (data r))]
      in if truthy (error r) then dict_set d ''error'' (error r) else d)"

text \<open>
  Modelled from the spec: the repository has no parser for the wire form of a Result.
  The spec speaks of re-parsing the wire form into the \<open>success\<close>/\<open>data\<close>/\<open>error\<close>
  triple; this reader takes the three keys of the wire format, \<open>error\<close> being optional
  there and null when absent. A wire form without a boolean \<open>success\<close> or without a
  mapping under \<open>data\<close> is not a Result.
\<close>

definition result_from_wire :: "pydict \<Rightarrow> AdapterResult option" where
  "result_from_wire w =
     (case (dict_get w ''success'', dict_get w ''data'') of
        (Some (PBool s), Some (PDict d)) \<Rightarrow>
          Some \<lparr>success = s, data = d,
                error = (case dict_get w ''error'' of None \<Rightarrow> PNone | Some e \<Rightarrow> e)\<rparr>
      | _ \<Rightarrow> None)"

section \<open>Command dispatch (adapter/base_adapter.py)\<close>

text \<open>
  What a raised object is an instance of decides whether \<open>except Exception\<close> catches
  it: \<open>KeyboardInterrupt\<close>, \<open>SystemExit\<close>, \<open>GeneratorExit\<close> and
  \<open>asyncio.CancelledError\<close> derive from \<open>BaseException\<close> only. The string is
  \<open>str(e)\<close>.
\<close>

datatype exc_class = ExceptionInstance | BaseExceptionOnly

datatype raised = Raised exc_class string

text \<open>
  A call of a handler raises, returns an \<open>AdapterResult\<close>, or returns any other
  value (\<open>PNone\<close> when the body has no \<open>return\<close>).
\<close>

datatype handler_outcome =
    Raises raised
  | ReturnsResult AdapterResult
  | Returns pyval

text \<open>
  A handler is a plain function or a coroutine function; \<open>execute\<close> tells them apart
  with \<open>inspect.iscoroutinefunction\<close> and awaits the second kind.
\<close>

datatype handler =
    SyncHandler "pydict \<Rightarrow> handler_outcome"
  | AsyncHandler "pydict \<Rightarrow> handler_outcome"

type_synonym registry = "string \<rightharpoonup> handler"

definition register_handler :: "registry \<Rightarrow> string \<Rightarrow> handler \<Rightarrow> registry" where
  "register_handler hs command_type h = hs(command_type \<mapsto> h)"

fun call_handler :: "handler \<Rightarrow> pydict \<Rightarrow> handler_outcome" where
  "call_handler (AsyncHandler f) params = f params"
| "call_handler (SyncHandler f) params = f params"

text \<open>The normalisation of a returned value, lines 122 to 130 of the source.\<close>

definition normalize :: "handler_outcome \<Rightarrow> raised + AdapterResult" where
  "normalize out =
     (case out of
        Raises (Raised cls m) \<Rightarrow>
          (case cls of
             ExceptionInstance \<Rightarrow> Inr (fail (PStr m) [])
           | BaseExceptionOnly \<Rightarrow> Inl (Raised cls m))
      | ReturnsResult r \<Rightarrow> Inr r
      | Returns v \<Rightarrow>
          (case v of
             PDict d \<Rightarrow>
               (if dict_get d ''status'' = Some (PStr ''error'')
                then Inr (fail (case dict_get d ''error'' of
                                  None \<Rightarrow> PStr ''Unknown error''
                                | Some e \<Rightarrow> e) [])
                else Inr \<lparr>success = True, data = d, error = PNone\<rparr>)
           | _ \<Rightarrow> Inr (ok [])))"

text \<open>
  \<open>BaseAdapter.execute\<close>. \<open>Inl\<close> is an exception that leaves \<open>execute\<close>;
  \<open>Inr\<close> is the returned \<open>AdapterResult\<close>.
\<close>

definition execute :: "registry \<Rightarrow> string \<Rightarrow> pydict \<Rightarrow> raised + AdapterResult" where
  "execute hs command_type params =
     (case hs command_type of
        None \<Rightarrow> Inr (fail (PStr (''Unknown command: '' @ command_type)) [])
      | Some h \<Rightarrow> normalize (call_handler h params))"


section \<open>Persistent server client (adapter/base_server_client.py)\<close>

datatype ConnectionState = DISCONNECTED | CONNECTING | CONNECTED | RECONNECTING

text \<open>
  What the client needs of an adapter: its handler registry and the answer of
  \<open>health_check()\<close>.
\<close>

record adapter =
  handlers :: registry
  healthy :: bool

text \<open>
  The fields of \<open>BaseServerClient\<close>. A websocket connection is a handle, a number;
  \<open>ws = None\<close> is \<open>self._ws is None\<close>. Of the configuration only
  \<open>max_reconnect_attempts\<close> decides control flow.
\<close>

record client =
  adapter :: "adapter option"
  ws :: "nat option"
  state :: ConnectionState
  reconnect_attempts :: int
  running :: bool
  max_reconnect_attempts :: int

text \<open>The client as \<open>__init__\<close> leaves it.\<close>

definition new_client :: "int \<Rightarrow> adapter option \<Rightarrow> client" where
  "new_client max_attempts a =
     \<lparr>adapter = a, ws = None, state = DISCONNECTED, reconnect_attempts = 0,
      running = False, max_reconnect_attempts = max_attempts\<rparr>"

definition is_connected :: "client \<Rightarrow> bool" where
  "is_connected c = (state c = CONNECTED \<and> ws c \<noteq> None)"

text \<open>
  What happens during one call of \<open>connect()\<close>: \<open>websockets.connect\<close> raises
  an \<open>Exception\<close> (\<open>OpenFails\<close>); or it returns a connection and
  \<open>_register\<close> raises an \<open>Exception\<close> (\<open>RegisterFails\<close>); or both succeed
  (\<open>Opened\<close>). Either step can also be left by an exception that is not an
  \<open>Exception\<close>, with the given text: the task is cancelled
  (\<open>asyncio.CancelledError\<close>), the process is interrupted
  (\<open>KeyboardInterrupt\<close>), or the adapter's \<open>get_registration_payload\<close> calls
  \<open>sys.exit\<close>.
\<close>

datatype connect_attempt =
    OpenFails
  | OpenInterrupted string
  | RegisterFails nat
  | RegisterInterrupted nat string
  | Opened nat

text \<open>The attempts that fail with an \<open>Exception\<close>, which \<open>connect()\<close> catches.\<close>

fun attempt_fails :: "connect_attempt \<Rightarrow> bool" where
  "attempt_fails OpenFails = True"
| "attempt_fails (OpenInterrupted m) = False"
| "attempt_fails (RegisterFails h) = True"
| "attempt_fails (RegisterInterrupted h m) = False"
| "attempt_fails (Opened h) = False"

definition import_error :: raised where
  "import_error =
     Raised ExceptionInstance ''websockets package required: pip install conjure-sdk[adapter]''"

text \<open>
  \<open>connect()\<close>. The first argument says whether \<open>import websockets\<close> succeeds.
  The result is how the call ends, \<open>Inl\<close> a raised exception and \<open>Inr\<close> the
  returned boolean, with the client as the call leaves it. \<open>except Exception\<close>
  does not catch the interrupting exceptions: they leave \<open>connect()\<close> with the
  state at \<open>CONNECTING\<close>.
\<close>

definition connect :: "bool \<Rightarrow> connect_attempt \<Rightarrow> client \<Rightarrow> (raised + bool) \<times> client" where
  "connect importable att c =
     (if \<not> importable then (Inl import_error, c)
      else if is_connected c then (Inr True, c)
      else
        (let c1 = c\<lparr>state := CONNECTING\<rparr>
         in case att of
              OpenFails \<Rightarrow> (Inr False, c1\<lparr>state := DISCONNECTED\<rparr>)
            | OpenInterrupted m \<Rightarrow> (Inl (Raised BaseExceptionOnly m), c1)
            | RegisterFails h \<Rightarrow> (Inr False, c1\<lparr>ws := Some h, state := DISCONNECTED\<rparr>)
            | RegisterInterrupted h m \<Rightarrow> (Inl (Raised BaseExceptionOnly m), c1\<lparr>ws := Some h\<rparr>)
            | Opened h \<Rightarrow>
                (Inr True, c1\<lparr>ws := Some h, state := CONNECTED, reconnect_attempts := 0\<rparr>)))"

definition disconnect :: "client \<Rightarrow> client" where
  "disconnect c = c\<lparr>running := False, ws := None, state := DISCONNECTED\<rparr>"

text \<open>
  An inbound message after \<open>json.loads\<close>. The fields of \<open>execute_command\<close> are
  those of the wire format, a string \<open>command_type\<close> and an object \<open>params\<close>,
  each \<open>None\<close> when the key is absent; \<open>request_id\<close> is any value.
\<close>

datatype inbound =
    InvalidJSON
  | ExecuteCommand "pyval option" "string option" "pydict option"
  | HealthCheck "pyval option"
  | Disconnect
  | UnknownType

text \<open>\<open>message.get(key, default)\<close> on a field of the message.\<close>

fun get_default :: "'a option \<Rightarrow> 'a \<Rightarrow> 'a" where
  "get_default None dflt = dflt"
| "get_default (Some v) dflt = v"

text \<open>
  \<open>_handle_execute_command\<close>: the response dictionary, or the exception that
  \<open>execute\<close> let through.
\<close>

definition handle_execute_command ::
  "client \<Rightarrow> pyval option \<Rightarrow> string option \<Rightarrow> pydict option \<Rightarrow> raised + pydict" where
  "handle_execute_command c request_id command_type params =
     (case adapter c of
        None \<Rightarrow>
          Inr [(''type'', PStr ''command_result''),
               (''request_id'', get_default request_id PNone),
               (''success'', PBool False),
               (''error'', PStr ''No adapter configured'')]
      | Some a \<Rightarrow>
          (case execute (handlers a) (get_default command_type []) (get_default params []) of
             Inl e \<Rightarrow> Inl e
           | Inr r \<Rightarrow>
               Inr (dict_merge
                      [(''type'', PStr ''command_result''),
                       (''request_id'', get_default request_id PNone)]
                      (to_wire r))))"

definition handle_health_check :: "client \<Rightarrow> pyval option \<Rightarrow> pydict" where
  "handle_health_check c request_id =
     [(''type'', PStr ''health_check_response''),
      (''request_id'', get_default request_id PNone),
      (''adapter_healthy'',
         PBool (case adapter c of None \<Rightarrow> False | Some a \<Rightarrow> healthy a))]"

text \<open>
  \<open>_handle_message\<close>: the response handed to \<open>_send\<close> (none when there is no
  connection to send on, the \<open>RuntimeError\<close> of \<open>_send\<close> being caught here) and
  the client afterwards. Only an exception outside \<open>Exception\<close> leaves it.
\<close>

fun handle_message :: "client \<Rightarrow> inbound \<Rightarrow> raised + (pydict option \<times> client)" where
  "handle_message c InvalidJSON = Inr (None, c)"
| "handle_message c UnknownType = Inr (None, c)"
| "handle_message c (ExecuteCommand rid ct ps) =
     (case handle_execute_command c rid ct ps of
        Inl e \<Rightarrow> Inl e
      | Inr resp \<Rightarrow> Inr (if ws c = None then None else Some resp, c))"
| "handle_message c (HealthCheck rid) =
     Inr (if ws c = None then None else Some (handle_health_check c rid), c)"
| "handle_message c Disconnect = Inr (None, disconnect c)"

text \<open>
  How \<open>async for message in self._ws\<close> ends: the iteration is exhausted, or it
  raises \<open>websockets.ConnectionClosed\<close>, or it raises another \<open>Exception\<close>.
\<close>

datatype session_end = IterationEnds | ConnectionClosed | OtherError

text \<open>What the network does during one pass of the \<open>while\<close> loop of \<open>run()\<close>.\<close>

record iteration_env =
  attempt :: connect_attempt
  messages :: "inbound list"
  ending :: session_end

fun handle_messages :: "client \<Rightarrow> inbound list \<Rightarrow> raised + client" where
  "handle_messages c [] = Inr c"
| "handle_messages c (m # ms) =
     (case handle_message c m of
        Inl e \<Rightarrow> Inl e
      | Inr (resp, c') \<Rightarrow> handle_messages c' ms)"

text \<open>The \<open>try\<close> statement around the message loop, lines 181 to 191.\<close>

definition message_loop :: "iteration_env \<Rightarrow> client \<Rightarrow> raised + client" where
  "message_loop e c =
     (case handle_messages c (messages e) of
        Inl x \<Rightarrow> Inl x
      | Inr c1 \<Rightarrow>
          (case ending e of
             IterationEnds \<Rightarrow> Inr c1
           | ConnectionClosed \<Rightarrow> Inr (c1\<lparr>state := RECONNECTING, ws := None\<rparr>)
           | OtherError \<Rightarrow> Inr (c1\<lparr>state := RECONNECTING\<rparr>)))"

datatype loop_ctl = Break | Next

text \<open>One pass of the body of \<open>while self._running\<close>.\<close>

definition loop_body :: "bool \<Rightarrow> iteration_env \<Rightarrow> client \<Rightarrow> raised + (loop_ctl \<times> client)" where
  "loop_body importable e c =
     (if \<not> is_connected c then
        (case connect importable (attempt e) c of
           (Inl x, c1) \<Rightarrow> Inl x
         | (Inr connected, c1) \<Rightarrow>
             (if \<not> connected then
                (let c2 = c1\<lparr>reconnect_attempts := reconnect_attempts c1 + 1\<rparr>
                 in if reconnect_attempts c2 > max_reconnect_attempts c2
                    then Inr (Break, c2)
                    else Inr (Next, c2))
              else map_sum id (Pair Next) (message_loop e c1)))
      else map_sum id (Pair Next) (message_loop e c))"

text \<open>
  The \<open>while\<close> loop with fuel: \<open>None\<close> when the fuel runs out before the loop
  ends. Pass \<open>i\<close> of the loop meets \<open>env i\<close>.
\<close>

fun run_loop ::
  "nat \<Rightarrow> bool \<Rightarrow> (nat \<Rightarrow> iteration_env) \<Rightarrow> nat \<Rightarrow> client \<Rightarrow> (raised + client) option" where
  "run_loop 0 importable env i c = None"
| "run_loop (Suc fuel) importable env i c =
     (if \<not> running c then Some (Inr c)
      else (case loop_body importable (env i) c of
              Inl x \<Rightarrow> Some (Inl x)
            | Inr (Break, c') \<Rightarrow> Some (Inr c')
            | Inr (Next, c') \<Rightarrow> run_loop fuel importable env (Suc i) c'))"

text \<open>
  \<open>run()\<close>: the import, then the loop with the running flag set. The bare
  \<open>import websockets\<close> of \<open>run()\<close> raises \<open>ModuleNotFoundError\<close> with
  Python's own text when the package is missing.
\<close>

definition module_not_found :: raised where
  "module_not_found =
     Raised ExceptionInstance (''No module named '' @ [CHR 0x27] @ ''websockets'' @ [CHR 0x27])"

definition run ::
  "nat \<Rightarrow> bool \<Rightarrow> (nat \<Rightarrow> iteration_env) \<Rightarrow> client \<Rightarrow> (raised + client) option" where
  "run fuel importable env c =
     (if \<not> importable then Some (Inl module_not_found)
      else run_loop fuel importable env 0 (c\<lparr>running := True\<rparr>))"

section \<open>Threaded socket server (transport/socket_server.py)\<close>

text \<open>
  The state that the connection threads and the execution thread share. A
  \<open>threading.Event\<close> is an object, named by a number; \<open>events_set\<close> records every
  call of \<open>set()\<close>, in order, by the event it was made on. The steps below are the
  atomic steps of the two threads; a run of the server is an interleaving of them.
\<close>

record socket_server =
  server_running :: bool
  operation_queue :: "(string \<times> pydict \<times> string) list"
  result_map :: "(string \<times> pyval) list"
  result_events :: "(string \<times> nat) list"
  events_set :: "nat list"

text \<open>\<open>server_init\<close> (the running flag has its class default) and \<open>server_start\<close>.\<close>

definition server_init :: socket_server where
  "server_init =
     \<lparr>server_running = False, operation_queue = [], result_map = [],
      result_events = [], events_set = []\<rparr>"

definition server_start :: "socket_server \<Rightarrow> socket_server" where
  "server_start s = (if server_running s then s else s\<lparr>server_running := True\<rparr>)"

text \<open>
  The outcome of \<open>json.loads\<close> on a command line: a decode error with its text, or
  a command whose \<open>type\<close>, \<open>params\<close> and \<open>request_id\<close> are each absent or
  present.
\<close>

datatype decoded =
    BadJSON string
  | Command "string option" "pydict option" "string option"

text \<open>
  \<open>_server_queue_and_wait\<close> up to \<open>event.wait\<close>: either the response returned at
  once, or the request id and the event the thread now waits on, with the server after
  the registration. \<open>fresh_id\<close> is \<open>str(uuid.uuid4())\<close> and \<open>ev\<close> the new
  \<open>threading.Event()\<close>.
\<close>

datatype queued =
    Responded pydict
  | Waiting string nat socket_server

definition server_queue :: "socket_server \<Rightarrow> decoded \<Rightarrow> string \<Rightarrow> nat \<Rightarrow> queued" where
  "server_queue s cmd fresh_id ev =
     (case cmd of
        BadJSON msg \<Rightarrow>
          Responded [(''status'', PStr ''error''), (''error'', PStr (''Invalid JSON: '' @ msg))]
      | Command ty ps rid \<Rightarrow>
          (let request_id = get_default rid fresh_id
           in Waiting request_id ev
                (s\<lparr>result_events := dict_set (result_events s) request_id ev,
                   operation_queue :=
                     operation_queue s @ [(get_default ty [], get_default ps [], request_id)]\<rparr>)))"

text \<open>
  \<open>_server_queue_and_wait\<close> from the return of \<open>event.wait(timeout)\<close> on: the wait
  returns true when \<open>set()\<close> has been called on the event, and false when the timeout
  elapses first. \<open>del self._result_events[request_id]\<close> raises \<open>KeyError\<close> on a
  missing key; its text is the \<open>repr\<close> of the key, which for a request id without
  quotes, backslashes or control characters is the id between single quotes.
\<close>

definition server_wait_done ::
  "socket_server \<Rightarrow> string \<Rightarrow> nat \<Rightarrow> raised + (pyval \<times> socket_server)" where
  "server_wait_done s request_id ev =
     (if ev \<in> set (events_set s) then
        (let result = get_default (dict_get (result_map s) request_id)
                        (PDict [(''status'', PStr ''error''), (''error'', PStr ''No result'')]);
             s1 = s\<lparr>result_map := dict_remove (result_map s) request_id\<rparr>
         in case dict_get (result_events s1) request_id of
              None \<Rightarrow> Inl (Raised ExceptionInstance ([CHR 0x27] @ request_id @ [CHR 0x27]))
            | Some e \<Rightarrow>
                Inr (result, s1\<lparr>result_events := dict_remove (result_events s1) request_id\<rparr>))
      else
        Inr (PDict [(''status'', PStr ''error''), (''error'', PStr ''Operation timed out'')],
             s\<lparr>result_events := dict_remove (result_events s) request_id\<rparr>))"

text \<open>The executor that the application passes to \<open>server_process_queue\<close>.\<close>

datatype exec_outcome = ExecRaises raised | ExecReturns pyval

type_synonym executor = "string \<Rightarrow> pydict \<Rightarrow> exec_outcome"

text \<open>
  The \<open>for\<close> loop of \<open>server_process_queue\<close>: at most \<open>n\<close> operations, stopping
  at an empty queue. An exception of the executor outside \<open>Exception\<close> leaves the
  loop.
\<close>

fun process_ops :: "executor \<Rightarrow> nat \<Rightarrow> socket_server \<Rightarrow> raised + socket_server" where
  "process_ops ex 0 s = Inr s"
| "process_ops ex (Suc n) s =
     (case operation_queue s of
        [] \<Rightarrow> Inr s
      | (cmd_type, params, request_id) # q \<Rightarrow>
          (case ex cmd_type params of
             ExecRaises (Raised BaseExceptionOnly m) \<Rightarrow> Inl (Raised BaseExceptionOnly m)
           | ExecRaises (Raised ExceptionInstance m) \<Rightarrow>
               process_ops ex n
                 (let s1 = s\<lparr>operation_queue := q,
                              result_map := dict_set (result_map s) request_id
                                (PDict [(''status'', PStr ''error''), (''error'', PStr m)])\<rparr>
                  in case dict_get (result_events s1) request_id of
                       None \<Rightarrow> s1
                     | Some ev \<Rightarrow> s1\<lparr>events_set := events_set s1 @ [ev]\<rparr>)
           | ExecReturns v \<Rightarrow>
               process_ops ex n
                 (let s1 = s\<lparr>operation_queue := q,
                              result_map := dict_set (result_map s) request_id v\<rparr>
                  in case dict_get (result_events s1) request_id of
                       None \<Rightarrow> s1
                     | Some ev \<Rightarrow> s1\<lparr>events_set := events_set s1 @ [ev]\<rparr>)))"

text \<open>\<open>server_process_queue(executor, max_ops)\<close>; \<open>range\<close> of a negative number is empty.\<close>

definition server_process_queue ::
  "executor \<Rightarrow> int \<Rightarrow> socket_server \<Rightarrow> raised + (bool \<times> socket_server)" where
  "server_process_queue ex max_ops s =
     (if \<not> server_running s then Inr (False, s)
      else map_sum id (Pair True) (process_ops ex (nat max_ops) s))"

section \<open>Properties of the dispatcher\<close>

text \<open>
  C8. For every command type with no registered handler, \<open>execute\<close> returns a failure
  Result whose error text is exactly \<open>Unknown command: \<close> followed by the command
  type; nothing is raised, and the data of the Result is empty.
\<close>

theorem execute_unknown_command:
  assumes "hs command_type = None"
  shows "\<exists>r. execute hs command_type params = Inr r \<and> \<not> success r \<and> data r = [] \<and>
             error r = PStr (''Unknown command: '' @ command_type)"
  using assms by (simp add: execute_def fail_def)

theorem execute_unknown_command_witness:
  "(Map.empty :: registry) ''create_box'' = None \<and>
   (\<exists>r. execute Map.empty ''create_box'' [(''width'', PInt 10)] = Inr r \<and> \<not> success r \<and>
        data r = [] \<and> error r = PStr ''Unknown command: create_box'')"
  using execute_unknown_command [of Map.empty "''create_box''" "[(''width'', PInt 10)]"]
  by simp

text \<open>
  C10. For every registered handler whose return value is neither an \<open>AdapterResult\<close>
  nor a dictionary (a string, a number, a list, \<open>None\<close>, any other object),
  \<open>execute\<close> returns the success Result with empty data and no error, the one it
  returns for a handler without a return value.
\<close>

theorem execute_other_return_value:
  assumes "hs command_type = Some h"
    and "call_handler h params = Returns v"
    and "\<forall>d. v \<noteq> PDict d"
  shows "execute hs command_type params = Inr \<lparr>success = True, data = [], error = PNone\<rparr>"
  using assms by (cases v) (simp_all add: execute_def normalize_def ok_def)

theorem execute_other_return_value_witness:
  "[''count'' \<mapsto> SyncHandler (\<lambda>p. Returns (PInt 3))] ''count'' =
      Some (SyncHandler (\<lambda>p. Returns (PInt 3))) \<and>
   call_handler (SyncHandler (\<lambda>p. Returns (PInt 3))) [] = Returns (PInt 3) \<and>
   (\<forall>d. PInt 3 \<noteq> PDict d) \<and>
   execute [''count'' \<mapsto> SyncHandler (\<lambda>p. Returns (PInt 3))] ''count'' [] =
      Inr \<lparr>success = True, data = [], error = PNone\<rparr>"
  using execute_other_return_value
    [of "[''count'' \<mapsto> SyncHandler (\<lambda>p. Returns (PInt 3))]" "''count''"
        "SyncHandler (\<lambda>p. Returns (PInt 3))" "[]" "PInt 3"]
  by simp


text \<open>
  C1, as amended. For every registered handler, plain or coroutine function, and every
  parameter mapping: if the handler raises an instance of \<open>Exception\<close>, then
  \<open>execute\<close> returns a failure Result whose error is the text of the exception, and
  nothing is raised to the caller.
\<close>

theorem execute_catches_exception:
  assumes "hs command_type = Some h"
    and "call_handler h params = Raises (Raised ExceptionInstance m)"
  shows "\<exists>r. execute hs command_type params = Inr r \<and> \<not> success r \<and> error r = PStr m"
  using assms by (simp add: execute_def normalize_def fail_def)

theorem execute_catches_exception_witness:
  "[''boom'' \<mapsto> AsyncHandler (\<lambda>p. Raises (Raised ExceptionInstance ''Something went wrong''))]
      ''boom'' =
      Some (AsyncHandler (\<lambda>p. Raises (Raised ExceptionInstance ''Something went wrong''))) \<and>
   call_handler (AsyncHandler (\<lambda>p. Raises (Raised ExceptionInstance ''Something went wrong'')))
      [] = Raises (Raised ExceptionInstance ''Something went wrong'') \<and>
   (\<exists>r. execute
          [''boom'' \<mapsto> AsyncHandler (\<lambda>p. Raises (Raised ExceptionInstance ''Something went wrong''))]
          ''boom'' [] = Inr r \<and>
        \<not> success r \<and> error r = PStr ''Something went wrong'')"
  using execute_catches_exception
    [of "[''boom'' \<mapsto> AsyncHandler (\<lambda>p. Raises (Raised ExceptionInstance ''Something went wrong''))]"
        "''boom''"
        "AsyncHandler (\<lambda>p. Raises (Raised ExceptionInstance ''Something went wrong''))"
        "[]" "''Something went wrong''"]
  by simp

text \<open>
  C1 as stated fails: a handler that raises \<open>SystemExit\<close>, which is not an instance
  of \<open>Exception\<close>, is not caught, and the exception reaches the caller of
  \<open>execute\<close>.
\<close>

theorem execute_base_exception_counterexample:
  "execute [''quit'' \<mapsto> SyncHandler (\<lambda>p. Raises (Raised BaseExceptionOnly ''bye''))] ''quit'' [] =
     Inl (Raised BaseExceptionOnly ''bye'') \<and>
   \<not> (\<exists>r. execute [''quit'' \<mapsto> SyncHandler (\<lambda>p. Raises (Raised BaseExceptionOnly ''bye''))]
             ''quit'' [] = Inr r \<and> \<not> success r \<and> error r = PStr ''bye'')"
  by (simp add: execute_def normalize_def)

text \<open>
  C5, as amended. For every handler that returns a dictionary whose \<open>status\<close> is
  \<open>"error"\<close>, \<open>execute\<close> returns a failure Result; its error is the value under
  the dictionary's key \<open>error\<close> when the dictionary has that key, and the text
  \<open>Unknown error\<close> when it has not.
\<close>

theorem execute_legacy_error_dict:
  assumes "hs command_type = Some h"
    and "call_handler h params = Returns (PDict d)"
    and "dict_get d ''status'' = Some (PStr ''error'')"
  shows "\<exists>r. execute hs command_type params = Inr r \<and> \<not> success r \<and>
             (\<forall>e. dict_get d ''error'' = Some e \<longrightarrow> error r = e) \<and>
             (dict_get d ''error'' = None \<longrightarrow> error r = PStr ''Unknown error'')"
  using assms by (simp add: execute_def normalize_def fail_def)

theorem execute_legacy_error_dict_witness:
  "[''cut'' \<mapsto> SyncHandler
      (\<lambda>p. Returns (PDict [(''status'', PStr ''error''), (''error'', PStr ''Operation failed'')]))]
      ''cut'' =
      Some (SyncHandler
        (\<lambda>p. Returns (PDict [(''status'', PStr ''error''), (''error'', PStr ''Operation failed'')]))) \<and>
   call_handler (SyncHandler
        (\<lambda>p. Returns (PDict [(''status'', PStr ''error''), (''error'', PStr ''Operation failed'')])))
      [] = Returns (PDict [(''status'', PStr ''error''), (''error'', PStr ''Operation failed'')]) \<and>
   dict_get [(''status'', PStr ''error''), (''error'', PStr ''Operation failed'')] ''status'' =
      Some (PStr ''error'') \<and>
   (\<exists>r. execute
          [''cut'' \<mapsto> SyncHandler
            (\<lambda>p. Returns (PDict [(''status'', PStr ''error''), (''error'', PStr ''Operation failed'')]))]
          ''cut'' [] = Inr r \<and>
        \<not> success r \<and> error r = PStr ''Operation failed'')"
  using execute_legacy_error_dict
    [of "[''cut'' \<mapsto> SyncHandler
           (\<lambda>p. Returns (PDict [(''status'', PStr ''error''), (''error'', PStr ''Operation failed'')]))]"
        "''cut''"
        "SyncHandler
           (\<lambda>p. Returns (PDict [(''status'', PStr ''error''), (''error'', PStr ''Operation failed'')]))"
        "[]"
        "[(''status'', PStr ''error''), (''error'', PStr ''Operation failed'')]"]
  by simp

text \<open>
  C5 as stated fails: the dictionary \<open>{"status": "error"}\<close> carries the failure
  marker and has no \<open>error\<close> field, and the Result's error is the text
  \<open>Unknown error\<close>, which is no field of the dictionary.
\<close>

theorem execute_legacy_error_dict_counterexample:
  "dict_get [(''status'', PStr ''error'')] ''status'' = Some (PStr ''error'') \<and>
   dict_get [(''status'', PStr ''error'')] ''error'' = None \<and>
   execute [''cut'' \<mapsto> SyncHandler (\<lambda>p. Returns (PDict [(''status'', PStr ''error'')]))] ''cut'' [] =
     Inr \<lparr>success = False, data = [], error = PStr ''Unknown error''\<rparr> \<and>
   \<not> (\<exists>r. execute [''cut'' \<mapsto> SyncHandler (\<lambda>p. Returns (PDict [(''status'', PStr ''error'')]))]
             ''cut'' [] = Inr r \<and>
           dict_get [(''status'', PStr ''error'')] ''error'' = Some (error r))"
  by (simp add: execute_def normalize_def fail_def)

section \<open>Properties of the wire form\<close>

text \<open>
  C6, as amended. For every Result whose error is null or a non-empty string,
  whatever its success flag and data: reading the wire form of \<open>to_wire\<close> back gives
  the same \<open>success\<close>/\<open>data\<close>/\<open>error\<close> triple, and the key \<open>error\<close> is in the
  wire form if and only if the error is not null.
\<close>

theorem to_wire_round_trip:
  assumes "error r = PNone \<or> (\<exists>s. s \<noteq> [] \<and> error r = PStr s)"
  shows "result_from_wire (to_wire r) = Some r \<and>
         (dict_get (to_wire r) ''error'' \<noteq> None) = (error r \<noteq> PNone)"
  using assms by (cases r) (auto simp: to_wire_def result_from_wire_def)

theorem to_wire_round_trip_witness:
  "(error \<lparr>success = False, data = [(''detail'', PStr ''Additional info'')],
           error = PStr ''Something went wrong''\<rparr> = PNone \<or>
    (\<exists>s. s \<noteq> [] \<and>
         error \<lparr>success = False, data = [(''detail'', PStr ''Additional info'')],
                error = PStr ''Something went wrong''\<rparr> = PStr s)) \<and>
   result_from_wire
     (to_wire \<lparr>success = False, data = [(''detail'', PStr ''Additional info'')],
               error = PStr ''Something went wrong''\<rparr>) =
     Some \<lparr>success = False, data = [(''detail'', PStr ''Additional info'')],
           error = PStr ''Something went wrong''\<rparr> \<and>
   dict_get
     (to_wire \<lparr>success = False, data = [(''detail'', PStr ''Additional info'')],
               error = PStr ''Something went wrong''\<rparr>) ''error'' =
     Some (PStr ''Something went wrong'')"
  using to_wire_round_trip
    [of "\<lparr>success = False, data = [(''detail'', PStr ''Additional info'')],
          error = PStr ''Something went wrong''\<rparr>"]
  by (simp add: to_wire_def)

text \<open>
  C6 as stated fails at the empty error string, which is not null: the guard
  \<open>if self.error:\<close> leaves the key \<open>error\<close> out, the wire form is that of the
  Result without an error, and reading it back gives a null error.
\<close>

theorem to_wire_empty_error_counterexample:
  "error \<lparr>success = False, data = [], error = PStr []\<rparr> \<noteq> PNone \<and>
   dict_get (to_wire \<lparr>success = False, data = [], error = PStr []\<rparr>) ''error'' = None \<and>
   to_wire \<lparr>success = False, data = [], error = PStr []\<rparr> =
     to_wire \<lparr>success = False, data = [], error = PNone\<rparr> \<and>
   result_from_wire (to_wire \<lparr>success = False, data = [], error = PStr []\<rparr>) \<noteq>
     Some \<lparr>success = False, data = [], error = PStr []\<rparr>"
  by (simp add: to_wire_def result_from_wire_def)

section \<open>Properties of the persistent server client\<close>

text \<open>
  C9, at the failing inputs. With no adapter attached, whatever the message, the
  \<open>command_result\<close> that \<open>_handle_execute_command\<close> returns has the keys
  \<open>type\<close>, \<open>request_id\<close>, \<open>success\<close> and \<open>error\<close>, and no key
  \<open>data\<close>.
\<close>

theorem command_result_without_adapter_has_no_data:
  "\<exists>resp. handle_execute_command (c\<lparr>adapter := None\<rparr>) request_id command_type params = Inr resp \<and>
          dict_get resp ''type'' = Some (PStr ''command_result'') \<and>
          dict_get resp ''error'' = Some (PStr ''No adapter configured'') \<and>
          dict_get resp ''data'' = None"
  by (simp add: handle_execute_command_def)


text \<open>
  C7, as amended. With the \<open>websockets\<close> package importable, \<open>connect()\<close> on a
  connected client returns success and changes nothing; on a client that is not
  connected, a failure of \<open>websockets.connect\<close> or of the registration with an
  instance of \<open>Exception\<close> makes it return failure, without raising, with the
  state back at \<open>DISCONNECTED\<close>.
\<close>

theorem connect_noop_or_reverts:
  assumes "importable"
  shows "(is_connected c \<longrightarrow> connect importable att c = (Inr True, c)) \<and>
         (\<not> is_connected c \<and> attempt_fails att \<longrightarrow>
            (\<exists>c'. connect importable att c = (Inr False, c') \<and> state c' = DISCONNECTED))"
  using assms by (cases att) (simp_all add: connect_def)

theorem connect_noop_or_reverts_witness:
  "is_connected (new_client 10 None\<lparr>ws := Some 1, state := CONNECTED\<rparr>) \<and>
   connect True OpenFails (new_client 10 None\<lparr>ws := Some 1, state := CONNECTED\<rparr>) =
     (Inr True, new_client 10 None\<lparr>ws := Some 1, state := CONNECTED\<rparr>) \<and>
   \<not> is_connected (new_client 10 None) \<and> attempt_fails (RegisterFails 7) \<and>
   (\<exists>c'. connect True (RegisterFails 7) (new_client 10 None) = (Inr False, c') \<and>
         state c' = DISCONNECTED)"
  using connect_noop_or_reverts
      [of True "new_client 10 None\<lparr>ws := Some 1, state := CONNECTED\<rparr>" OpenFails]
    connect_noop_or_reverts [of True "new_client 10 None" "RegisterFails 7"]
  by (simp add: is_connected_def new_client_def)

text \<open>
  C7 as stated fails twice. A fresh client whose \<open>websockets.connect\<close> is cancelled
  (\<open>asyncio.CancelledError\<close>, not an \<open>Exception\<close>) does not return failure:
  \<open>connect()\<close> raises, and the state stays at \<open>CONNECTING\<close>. And without the
  \<open>websockets\<close> package, \<open>connect()\<close> on a connected client raises
  \<open>ImportError\<close> instead of returning success.
\<close>

theorem connect_interrupted_counterexample:
  "\<not> is_connected (new_client 10 None) \<and>
   connect True (OpenInterrupted ''cancelled'') (new_client 10 None) =
     (Inl (Raised BaseExceptionOnly ''cancelled''), new_client 10 None\<lparr>state := CONNECTING\<rparr>) \<and>
   state (snd (connect True (OpenInterrupted ''cancelled'') (new_client 10 None))) \<noteq> DISCONNECTED \<and>
   is_connected (new_client 10 None\<lparr>ws := Some 1, state := CONNECTED\<rparr>) \<and>
   connect False OpenFails (new_client 10 None\<lparr>ws := Some 1, state := CONNECTED\<rparr>) =
     (Inl import_error, new_client 10 None\<lparr>ws := Some 1, state := CONNECTED\<rparr>)"
  by (simp add: connect_def is_connected_def new_client_def)

text \<open>
  In general: an interrupted attempt on a client that is not connected leaves
  \<open>connect()\<close> raising the interrupting exception, with the state at
  \<open>CONNECTING\<close>.
\<close>

lemma connect_interrupted:
  assumes "\<not> is_connected c"
  shows "connect True (OpenInterrupted m) c =
           (Inl (Raised BaseExceptionOnly m), c\<lparr>state := CONNECTING\<rparr>)"
    and "connect True (RegisterInterrupted h m) c =
           (Inl (Raised BaseExceptionOnly m), c\<lparr>state := CONNECTING, ws := Some h\<rparr>)"
  using assms by (simp_all add: connect_def)

text \<open>
  Handling inbound messages never touches the reconnect counter, and neither does the
  \<open>try\<close> statement around the message loop.
\<close>

lemma handle_message_reconnect_attempts:
  "handle_message c m = Inr (resp, c') \<Longrightarrow> reconnect_attempts c' = reconnect_attempts c"
  by (cases m) (auto simp: disconnect_def split: sum.splits)

lemma handle_messages_reconnect_attempts:
  "handle_messages c ms = Inr c' \<Longrightarrow> reconnect_attempts c' = reconnect_attempts c"
proof (induction ms arbitrary: c)
  case Nil
  then show ?case by simp
next
  case (Cons m ms)
  then show ?case
    by (auto split: sum.splits prod.splits dest: handle_message_reconnect_attempts)
qed

lemma message_loop_reconnect_attempts:
  "message_loop e c = Inr c' \<Longrightarrow> reconnect_attempts c' = reconnect_attempts c"
  by (auto simp: message_loop_def split: sum.splits session_end.splits
           dest: handle_messages_reconnect_attempts)

text \<open>
  C2, at the failing input. A connected client whose message iteration raises an
  exception other than \<open>ConnectionClosed\<close> goes to \<open>RECONNECTING\<close> and keeps its
  connection handle; only on \<open>ConnectionClosed\<close> is the handle dropped. The
  reconnect counter is the same after both.
\<close>

theorem message_loop_error_keeps_handle:
  "loop_body True \<lparr>attempt = OpenFails, messages = [], ending = OtherError\<rparr>
     (new_client 10 None\<lparr>ws := Some 1, state := CONNECTED, reconnect_attempts := 0, running := True\<rparr>) =
     Inr (Next,
          new_client 10 None\<lparr>ws := Some 1, state := RECONNECTING, reconnect_attempts := 0,
                              running := True\<rparr>) \<and>
   loop_body True \<lparr>attempt = OpenFails, messages = [], ending = ConnectionClosed\<rparr>
     (new_client 10 None\<lparr>ws := Some 1, state := CONNECTED, reconnect_attempts := 0, running := True\<rparr>) =
     Inr (Next,
          new_client 10 None\<lparr>ws := None, state := RECONNECTING, reconnect_attempts := 0,
                              running := True\<rparr>)"
  by (simp add: loop_body_def message_loop_def is_connected_def new_client_def)

text \<open>One pass of the loop on a client that is not connected, when the attempt fails.\<close>

lemma loop_body_failed_attempt:
  assumes "\<not> is_connected c" and "attempt_fails (attempt e)"
  shows "\<exists>c2. loop_body True e c =
                 Inr (if reconnect_attempts c + 1 > max_reconnect_attempts c then Break else Next, c2) \<and>
              state c2 = DISCONNECTED \<and>
              reconnect_attempts c2 = reconnect_attempts c + 1 \<and>
              max_reconnect_attempts c2 = max_reconnect_attempts c \<and>
              running c2 = running c"
  using assms by (cases "attempt e") (simp_all add: loop_body_def connect_def Let_def)

lemma run_loop_failed_attempts:
  assumes "running c" and "\<not> is_connected c"
    and "\<forall>i. attempt_fails (attempt (env i))"
    and "nat (max_reconnect_attempts c - reconnect_attempts c) < fuel"
  shows "\<exists>c'. run_loop fuel True env i c = Some (Inr c') \<and> state c' = DISCONNECTED \<and>
              max_reconnect_attempts c' = max_reconnect_attempts c \<and>
              reconnect_attempts c' > max_reconnect_attempts c"
  using assms
proof (induction fuel arbitrary: c i)
  case 0
  then show ?case by simp
next
  case (Suc fuel)
  from Suc.prems(2,3) obtain c2 where
    body: "loop_body True (env i) c =
             Inr (if reconnect_attempts c + 1 > max_reconnect_attempts c then Break else Next, c2)"
    and c2: "state c2 = DISCONNECTED" "reconnect_attempts c2 = reconnect_attempts c + 1"
      "max_reconnect_attempts c2 = max_reconnect_attempts c" "running c2 = running c"
    using loop_body_failed_attempt [of c "env i"] by blast
  show ?case
  proof (cases "reconnect_attempts c + 1 > max_reconnect_attempts c")
    case True
    with body c2 Suc.prems(1) show ?thesis by simp
  next
    case False
    have "\<not> is_connected c2" using c2 by (simp add: is_connected_def)
    moreover have "running c2" using c2 Suc.prems(1) by simp
    moreover have "nat (max_reconnect_attempts c2 - reconnect_attempts c2) < fuel"
      using False c2 Suc.prems(4) by simp
    ultimately obtain c' where
      "run_loop fuel True env (Suc i) c2 = Some (Inr c')" "state c' = DISCONNECTED"
      "max_reconnect_attempts c' = max_reconnect_attempts c2"
      "reconnect_attempts c' > max_reconnect_attempts c2"
      using Suc.IH [of c2 "Suc i"] Suc.prems(3) by blast
    with body c2 False Suc.prems(1) show ?thesis by simp
  qed
qed

text \<open>
  C3. From a client that is not connected, if every \<open>connect()\<close> fails, then \<open>run()\<close>
  returns without raising once the failed attempts exceed \<open>max_reconnect_attempts\<close>:
  with more fuel than \<open>max_reconnect_attempts - reconnect_attempts\<close> passes of the
  loop it ends, the counter is above the maximum, and the state reads
  \<open>DISCONNECTED\<close>, which is not \<open>CONNECTED\<close>.
\<close>

theorem run_stops_after_max_attempts:
  assumes "\<not> is_connected c"
    and "\<forall>i. attempt_fails (attempt (env i))"
    and "nat (max_reconnect_attempts c - reconnect_attempts c) < fuel"
  shows "\<exists>c'. run fuel True env c = Some (Inr c') \<and> state c' = DISCONNECTED \<and>
              state c' \<noteq> CONNECTED \<and> reconnect_attempts c' > max_reconnect_attempts c'"
proof -
  let ?c = "c\<lparr>running := True\<rparr>"
  have "running ?c" "\<not> is_connected ?c"
    "nat (max_reconnect_attempts ?c - reconnect_attempts ?c) < fuel"
    using assms by (simp_all add: is_connected_def)
  then obtain c' where "run_loop fuel True env 0 ?c = Some (Inr c')" "state c' = DISCONNECTED"
    "max_reconnect_attempts c' = max_reconnect_attempts ?c"
    "reconnect_attempts c' > max_reconnect_attempts ?c"
    using run_loop_failed_attempts [of ?c env fuel 0] assms(2) by blast
  then show ?thesis by (simp add: run_def)
qed

theorem run_stops_after_max_attempts_witness:
  "\<not> is_connected (new_client 2 None) \<and>
   (\<forall>i. attempt_fails
          (attempt ((\<lambda>i. \<lparr>attempt = OpenFails, messages = [], ending = IterationEnds\<rparr>) i))) \<and>
   nat (max_reconnect_attempts (new_client 2 None) - reconnect_attempts (new_client 2 None)) < 3 \<and>
   (\<exists>c'. run 3 True (\<lambda>i. \<lparr>attempt = OpenFails, messages = [], ending = IterationEnds\<rparr>)
            (new_client 2 None) = Some (Inr c') \<and>
         state c' = DISCONNECTED \<and> state c' \<noteq> CONNECTED \<and>
         reconnect_attempts c' > max_reconnect_attempts c')"
  using run_stops_after_max_attempts
    [of "new_client 2 None" "\<lambda>i. \<lparr>attempt = OpenFails, messages = [], ending = IterationEnds\<rparr>" 3]
  by (simp add: is_connected_def new_client_def)

section \<open>Properties of the threaded socket server\<close>

text \<open>
  C4, at the failing input. A command with request id \<open>req-1\<close> is queued and its
  wait times out: the waiting thread removes its event and returns the timeout error.
  When the execution thread later processes the operation, nothing is raised and no
  event is set, but the result is stored under \<open>req-1\<close> in the result map, where no
  thread will ever remove it.
\<close>

theorem late_completion_leaves_result:
  "server_queue (server_start server_init)
     (Command (Some ''create_box'') (Some []) (Some ''req-1'')) ''generated-id'' 0 =
     Waiting ''req-1'' 0
       \<lparr>server_running = True, operation_queue = [(''create_box'', [], ''req-1'')],
        result_map = [], result_events = [(''req-1'', 0)], events_set = []\<rparr> \<and>
   server_wait_done
     \<lparr>server_running = True, operation_queue = [(''create_box'', [], ''req-1'')],
      result_map = [], result_events = [(''req-1'', 0)], events_set = []\<rparr> ''req-1'' 0 =
     Inr (PDict [(''status'', PStr ''error''), (''error'', PStr ''Operation timed out'')],
          \<lparr>server_running = True, operation_queue = [(''create_box'', [], ''req-1'')],
           result_map = [], result_events = [], events_set = []\<rparr>) \<and>
   server_process_queue (\<lambda>ty ps. ExecReturns (PDict [(''success'', PBool True)])) 10
     \<lparr>server_running = True, operation_queue = [(''create_box'', [], ''req-1'')],
      result_map = [], result_events = [], events_set = []\<rparr> =
     Inr (True,
          \<lparr>server_running = True, operation_queue = [],
           result_map = [(''req-1'', PDict [(''success'', PBool True)])],
           result_events = [], events_set = []\<rparr>)"
  by (simp add: server_queue_def server_start_def server_init_def server_wait_done_def
      server_process_queue_def Let_def eval_nat_numeral)

end
